theory Spec2Isabelle
  imports Complex_Main
begin

section \<open>Edge conflicts of BCP-MAPF: data model\<close>

text \<open>
  The development embeds \<^verbatim>\<open>src/bcp/ConstraintHandler_EdgeConflicts.cpp\<close>.
  The header files of the repository (coordinates, map, variable data) and the SCIP
  library are not part of the sources, so the types they declare are modelled here and
  the functions they provide are fields of the record \<open>SCIP\<close> below: every theorem holds
  for all values of these fields.

  \<^item> \<open>Node\<close> and \<open>Time\<close> are signed machine integers in the source. Times only arise as loop
    counters starting at 0, so they are natural numbers here. A path is an array with its
    length; here it is a list and \<open>path_length\<close> is its length. For \<open>t \<ge> 0\<close> the source's
    signed tests \<open>t < path_length - 1\<close> and \<open>t >= path_length - 1\<close> agree with the same
    tests over the naturals (also for \<open>path_length = 0\<close>, where \<open>0 - 1 = 0\<close>).
  \<^item> \<open>SCIP_Real\<close> is a double in the source and a real number here: rounding of the
    floating-point additions is not modelled.
  \<^item> The source reads \<open>path[path_length - 1]\<close> unguarded. For an empty path this is an
    out-of-bounds read with undefined behaviour; the theorems that depend on the value
    read assume that the paths are not empty.
  \<^item> \<open>SCIP_CALL\<close> returns early when a solver call does not return \<open>SCIP_OKAY\<close> (the solver
    ran out of memory, for instance). The model describes the runs in which every solver
    call succeeds.
  \<^item> \<open>debug_assert\<close>, \<open>debugln\<close> and the code under \<open>DEBUG\<close> and \<open>PRINT_DEBUG\<close> are absent from a
    release build and from the model. The build option \<open>USE_WAITEDGE_CONFLICTS\<close> is a
    boolean argument of the separator.
\<close>

type_synonym Node = int
type_synonym Time = nat
type_synonym SCIP_Real = real

text \<open>
  Modelled from the spec: the enumeration \<open>Direction\<close> of the missing header, "a small
  closed enumeration of movement directions plus a distinguished WAIT value".
\<close>

datatype Direction = NORTH | SOUTH | EAST | WEST | WAIT

text \<open>
  Modelled from the spec: an \<open>Edge\<close> is an (origin node, direction) pair, and an \<open>EdgeTime\<close>
  is an edge with a time. Equality of edges compares both components.
\<close>

datatype Edge = Edge (edge_n: Node) (edge_d: Direction)

datatype EdgeTime = EdgeTime (et_e: Edge) (et_t: Time)

type_synonym SCIP_VAR = nat

type_synonym SCIP_SOL = "SCIP_VAR \<Rightarrow> SCIP_Real"

datatype SCIP_RESULT =
  SCIP_DIDNOTFIND | SCIP_FEASIBLE | SCIP_INFEASIBLE | SCIP_SEPARATED | SCIP_CUTOFF

datatype row_bound = MinusInfinity | Finite SCIP_Real

text \<open>
  A row of the solver: left-hand side, right-hand side, the three flags given at creation
  (local, modifiable, removable) and the coefficients, in the order the columns were added.
\<close>

record SCIP_ROW =
  row_lhs :: row_bound
  row_rhs :: SCIP_Real
  row_local :: bool
  row_modifiable :: bool
  row_removable :: bool
  row_cols :: "(SCIP_VAR \<times> SCIP_Real) list"

text \<open>
  The hash table of the source, \<open>HashTable<EdgeTime, SCIP_Real>\<close>, is the list of its
  entries in the order in which their keys were first inserted.
\<close>

type_synonym HashTable = "(EdgeTime \<times> SCIP_Real) list"

text \<open>
  What the source reads from its environment: the tolerance comparisons of the solver,
  the list of path variables of the problem, the path of each variable, the two lookups
  of the map, the answer of \<open>SCIPaddRow\<close> (whether adding the row made the relaxation
  infeasible, as a function of the row), and the order in which a range-based \<open>for\<close> over
  a hash table visits the entries, which the hash table leaves unspecified.
\<close>

record SCIP =
  SCIPisPositive :: "SCIP_Real \<Rightarrow> bool"
  SCIPisGT :: "SCIP_Real \<Rightarrow> SCIP_Real \<Rightarrow> bool"
  SCIPprobdataGetVars :: "SCIP_VAR list"
  SCIPvardataGetPath :: "SCIP_VAR \<Rightarrow> Edge list"
  get_undirected_edge :: "Edge \<Rightarrow> Edge"
  get_opposite_edge :: "Edge \<Rightarrow> Edge"
  SCIPaddRow :: "SCIP_ROW \<Rightarrow> bool"
  hash_iteration :: "HashTable \<Rightarrow> HashTable"

definition SCIPvardataGetPathLength :: "SCIP \<Rightarrow> SCIP_VAR \<Rightarrow> Time" where
  "SCIPvardataGetPathLength scip var = length (SCIPvardataGetPath scip var)"

section \<open>Hash tables of accumulated weights\<close>

text \<open>
  \<open>hash_add et val table\<close> is \<open>table[et] += val\<close>: the index operator inserts the value
  \<open>0.0\<close> for a key that is not there. \<open>hash_find\<close> is the lookup \<open>table.find(et)\<close>. An
  iteration visits every entry of the table once, in some order.
\<close>

fun hash_add :: "EdgeTime \<Rightarrow> SCIP_Real \<Rightarrow> HashTable \<Rightarrow> HashTable" where
  "hash_add et val [] = [(et, 0 + val)]"
| "hash_add et val ((k, x) # table) =
     (if k = et then (k, x + val) # table else (k, x) # hash_add et val table)"

definition hash_find :: "HashTable \<Rightarrow> EdgeTime \<Rightarrow> SCIP_Real option" where
  "hash_find table et = map_of table et"


section \<open>Checker\<close>

text \<open>
  The inner loop of the checker for one variable with positive value:
  \<open>for (Time t = 0; t < path_length - 1; ++t) if (path[t].d != Direction::WAIT) ...\<close>
\<close>

definition check_sum_path :: "SCIP \<Rightarrow> Edge list \<Rightarrow> SCIP_Real \<Rightarrow> HashTable \<Rightarrow> HashTable" where
  "check_sum_path scip path var_val edge_times_used =
     fold (\<lambda>t used.
             if edge_d (path ! t) \<noteq> WAIT
             then hash_add (EdgeTime (get_undirected_edge scip (path ! t)) t) var_val used
             else used)
          [0 ..< length path - 1] edge_times_used"

text \<open>The outer loop over the variables, starting from the empty table.\<close>

definition check_sum :: "SCIP \<Rightarrow> SCIP_SOL \<Rightarrow> HashTable" where
  "check_sum scip sol =
     fold (\<lambda>var used.
             let path = SCIPvardataGetPath scip var;
                 var_val = sol var
             in if SCIPisPositive scip var_val
                then check_sum_path scip path var_val used
                else used)
          (SCIPprobdataGetVars scip) []"

text \<open>
  The scan of the entries in the order of the iteration: the first entry whose value is
  greater than 1 sets the result to \<open>SCIP_INFEASIBLE\<close> and returns; when there is none the
  result is left as it was.
\<close>

fun check_scan :: "SCIP \<Rightarrow> HashTable \<Rightarrow> SCIP_RESULT \<Rightarrow> SCIP_RESULT" where
  "check_scan scip [] result = result"
| "check_scan scip ((et, val) # rest) result =
     (if SCIPisGT scip val 1 then SCIP_INFEASIBLE else check_scan scip rest result)"

definition edge_conflicts_check :: "SCIP \<Rightarrow> SCIP_SOL \<Rightarrow> SCIP_RESULT \<Rightarrow> SCIP_RESULT" where
  "edge_conflicts_check scip sol result =
     check_scan scip (hash_iteration scip (check_sum scip sol)) result"

text \<open>\<open>consCheckEdgeConflicts\<close> and \<open>consEnfopsEdgeConflicts\<close> start from \<open>SCIP_FEASIBLE\<close>.\<close>

definition consCheckEdgeConflicts :: "SCIP \<Rightarrow> SCIP_SOL \<Rightarrow> SCIP_RESULT" where
  "consCheckEdgeConflicts scip sol = edge_conflicts_check scip sol SCIP_FEASIBLE"

definition consEnfopsEdgeConflicts :: "SCIP \<Rightarrow> SCIP_SOL \<Rightarrow> SCIP_RESULT" where
  "consEnfopsEdgeConflicts scip sol = edge_conflicts_check scip sol SCIP_FEASIBLE"

subsection \<open>The usage of an undirected edge at a time, in the words of the specification\<close>

text \<open>
  A variable traverses the undirected edge \<open>e\<close> at time \<open>t\<close> when \<open>t < path_length - 1\<close>, the
  step \<open>path[t]\<close> is not a wait, and the undirected edge of \<open>path[t]\<close> is \<open>e\<close>. The move usage
  of \<open>(e, t)\<close> is the sum of the values of the variables with positive value (by the
  tolerance test) that traverse \<open>e\<close> at \<open>t\<close>.
\<close>

definition traverses :: "SCIP \<Rightarrow> SCIP_VAR \<Rightarrow> Edge \<Rightarrow> Time \<Rightarrow> bool" where
  "traverses scip var e t =
     (let path = SCIPvardataGetPath scip var
      in t < length path - 1 \<and> edge_d (path ! t) \<noteq> WAIT \<and>
         get_undirected_edge scip (path ! t) = e)"

definition move_usage :: "SCIP \<Rightarrow> SCIP_SOL \<Rightarrow> Edge \<Rightarrow> Time \<Rightarrow> SCIP_Real" where
  "move_usage scip sol e t =
     sum_list (map sol (filter (\<lambda>var. SCIPisPositive scip (sol var) \<and> traverses scip var e t)
                               (SCIPprobdataGetVars scip)))"

section \<open>Rows of the solver\<close>

text \<open>
  \<open>SCIPcreateEmptyRowCons\<close> makes a row without coefficients. \<open>SCIPaddVarToRow\<close> increases
  the coefficient of the variable by the given value: a variable that is not in the row
  yet enters it with that value. \<open>SCIProwGetCoef\<close> reads a coefficient (0 for a variable
  that is not in the row) and \<open>SCIPgetRowSolActivity\<close> is the left-hand side of the row's
  inequality under an assignment of values to the variables.
\<close>

definition SCIPcreateEmptyRowCons ::
  "row_bound \<Rightarrow> SCIP_Real \<Rightarrow> bool \<Rightarrow> bool \<Rightarrow> bool \<Rightarrow> SCIP_ROW" where
  "SCIPcreateEmptyRowCons lhs rhs local modifiable removable =
     \<lparr>row_lhs = lhs, row_rhs = rhs, row_local = local, row_modifiable = modifiable,
      row_removable = removable, row_cols = []\<rparr>"

fun inc_coef :: "SCIP_VAR \<Rightarrow> SCIP_Real \<Rightarrow> (SCIP_VAR \<times> SCIP_Real) list \<Rightarrow> (SCIP_VAR \<times> SCIP_Real) list" where
  "inc_coef var val [] = [(var, val)]"
| "inc_coef var val ((v, c) # cols) =
     (if v = var then (v, c + val) # cols else (v, c) # inc_coef var val cols)"

definition SCIPaddVarToRow :: "SCIP_ROW \<Rightarrow> SCIP_VAR \<Rightarrow> SCIP_Real \<Rightarrow> SCIP_ROW" where
  "SCIPaddVarToRow row var val = row\<lparr>row_cols := inc_coef var val (row_cols row)\<rparr>"

definition SCIProwGetCoef :: "SCIP_ROW \<Rightarrow> SCIP_VAR \<Rightarrow> SCIP_Real" where
  "SCIProwGetCoef row var = (case map_of (row_cols row) var of None \<Rightarrow> 0 | Some c \<Rightarrow> c)"


section \<open>Creation of a cut\<close>

text \<open>
  The edges of a conflict are an \<open>Array<Edge, 3>\<close> when the source is built with
  \<open>USE_WAITEDGE_CONFLICTS\<close> and an \<open>Array<Edge, 2>\<close> otherwise.
\<close>

datatype EdgeArray = Array2 Edge Edge | Array3 Edge Edge Edge


fun edges1 :: "EdgeArray \<Rightarrow> Edge" where
  "edges1 (Array2 e0 e1) = e1"
| "edges1 (Array3 e0 e1 e2) = e1"

text \<open>
  An \<open>EdgeConflict\<close> of the cut store: the row, the edges of the conflict and the time. The
  source stores a pointer to the row of the solver; every row is created for one conflict
  and reached through that conflict only, so the model stores the row in the conflict.
\<close>

record EdgeConflict =
  ec_row :: SCIP_ROW
  ec_edges :: EdgeArray
  ec_t :: Time

record EdgeConflictsConsData =
  conflicts :: "EdgeConflict list"

text \<open>
  The test of \<open>edge_conflicts_create_cut\<close> that decides whether a variable enters the row
  (lines 147 to 152), in its two builds.
\<close>

fun create_cut_covers :: "Edge list \<Rightarrow> EdgeArray \<Rightarrow> Time \<Rightarrow> bool" where
  "create_cut_covers path (Array3 e0 e1 e2) t =
     ((t < length path - 1 \<and> (path ! t = e0 \<or> path ! t = e1 \<or> path ! t = e2)) \<or>
      (t \<ge> length path - 1 \<and> edge_n (path ! (length path - 1)) = edge_n e2))"
| "create_cut_covers path (Array2 e0 e1) t =
     (t < length path - 1 \<and> (path ! t = e0 \<or> path ! t = e1))"

text \<open>
  \<open>edge_conflicts_create_cut\<close>: an empty row with left-hand side \<open>-SCIPinfinity\<close> and
  right-hand side 1 (not local, modifiable, not removable); coefficient 1 for every variable
  that passes the test; the row is added to the relaxation; the result is the cutoff when
  that made the relaxation infeasible and \<open>SCIP_SEPARATED\<close> otherwise; the conflict is
  appended to the store.
\<close>

definition edge_conflicts_create_cut ::
  "SCIP \<Rightarrow> EdgeConflictsConsData \<Rightarrow> Time \<Rightarrow> EdgeArray \<Rightarrow> SCIP_VAR list \<Rightarrow> SCIP_RESULT \<Rightarrow>
   SCIP_RESULT \<times> EdgeConflictsConsData" where
  "edge_conflicts_create_cut scip consdata t edges vars result =
     (let row0 = SCIPcreateEmptyRowCons MinusInfinity 1 False True False;
          row = fold (\<lambda>var row.
                        let path = SCIPvardataGetPath scip var
                        in if create_cut_covers path edges t
                           then SCIPaddVarToRow row var 1
                           else row)
                     vars row0;
          infeasible = SCIPaddRow scip row;
          result' = (if infeasible then SCIP_CUTOFF else SCIP_SEPARATED)
      in (result', consdata\<lparr>conflicts := conflicts consdata @
                                 [\<lparr>ec_row = row, ec_edges = edges, ec_t = t\<rparr>]\<rparr>))"

section \<open>Separator\<close>

text \<open>The makespan: the length of the longest path among the variables with positive value.\<close>

definition find_makespan :: "SCIP \<Rightarrow> SCIP_SOL \<Rightarrow> Time" where
  "find_makespan scip sol =
     fold (\<lambda>var makespan.
             let path_length = SCIPvardataGetPathLength scip var;
                 var_val = sol var
             in if path_length > makespan \<and> SCIPisPositive scip var_val
                then path_length
                else makespan)
          (SCIPprobdataGetVars scip) 0"

text \<open>
  The two loops of the separator for one variable with positive value. The first runs over
  \<open>t < path_length - 1\<close> and adds the value to the move usage of a move and (with wait
  edges) to the wait usage of a wait. The second (with wait edges only) continues from
  where the first stopped while \<open>t < makespan - 1\<close> and adds the value to the wait usage
  of the last node of the path.
\<close>

definition separate_sum_path ::
  "bool \<Rightarrow> SCIP \<Rightarrow> Time \<Rightarrow> Edge list \<Rightarrow> SCIP_Real \<Rightarrow> HashTable \<times> HashTable \<Rightarrow>
   HashTable \<times> HashTable" where
  "separate_sum_path use_waitedge_conflicts scip makespan path var_val used =
     (let used1 =
            fold (\<lambda>t (move_edges_used, wait_edges_used).
                    if edge_d (path ! t) \<noteq> WAIT
                    then (hash_add (EdgeTime (get_undirected_edge scip (path ! t)) t) var_val
                            move_edges_used,
                          wait_edges_used)
                    else if use_waitedge_conflicts
                    then (move_edges_used,
                          hash_add (EdgeTime (path ! t) t) var_val wait_edges_used)
                    else (move_edges_used, wait_edges_used))
                 [0 ..< length path - 1] used
      in if use_waitedge_conflicts
         then let n = edge_n (path ! (length path - 1))
              in fold (\<lambda>t (move_edges_used, wait_edges_used).
                         (move_edges_used,
                          hash_add (EdgeTime (Edge n WAIT) t) var_val wait_edges_used))
                      [length path - 1 ..< makespan - 1] used1
         else used1)"

definition separate_sum :: "bool \<Rightarrow> SCIP \<Rightarrow> SCIP_SOL \<Rightarrow> Time \<Rightarrow> HashTable \<times> HashTable" where
  "separate_sum use_waitedge_conflicts scip sol makespan =
     fold (\<lambda>var used.
             let path = SCIPvardataGetPath scip var;
                 var_val = sol var
             in if SCIPisPositive scip var_val
                then separate_sum_path use_waitedge_conflicts scip makespan path var_val used
                else used)
          (SCIPprobdataGetVars scip) ([], [])"

text \<open>
  The choice of the wait edge for an entry of the move usage (lines 378 to 408): the wait
  usage of the nodes of the two edges at the time of the entry, 0 where the table has no
  entry; the first node when its value is greater than or equal to the other, by the
  comparison \<open>>=\<close> of the language. Without wait edges the array has two edges and the wait
  value is the constant 0.
\<close>

definition wait_edge ::
  "bool \<Rightarrow> SCIP \<Rightarrow> HashTable \<Rightarrow> EdgeTime \<Rightarrow> EdgeArray \<times> SCIP_Real" where
  "wait_edge use_waitedge_conflicts scip wait_edges_used et =
     (let t = et_t et;
          e0 = et_e et;
          e1 = get_opposite_edge scip (et_e et)
      in if use_waitedge_conflicts
         then let wait0_val = (case hash_find wait_edges_used (EdgeTime (Edge (edge_n e0) WAIT) t) of
                                 Some v \<Rightarrow> v | None \<Rightarrow> 0);
                  wait1_val = (case hash_find wait_edges_used (EdgeTime (Edge (edge_n e1) WAIT) t) of
                                 Some v \<Rightarrow> v | None \<Rightarrow> 0)
              in if wait0_val \<ge> wait1_val
                 then (Array3 e0 e1 (Edge (edge_n e0) WAIT), wait0_val)
                 else (Array3 e0 e1 (Edge (edge_n e1) WAIT), wait1_val)
         else (Array2 e0 e1, 0))"

text \<open>The body of the loop that creates the cuts, for one entry of the move usage.\<close>

definition separate_entry ::
  "bool \<Rightarrow> SCIP \<Rightarrow> HashTable \<Rightarrow> EdgeTime \<times> SCIP_Real \<Rightarrow>
   SCIP_RESULT \<times> EdgeConflictsConsData \<Rightarrow> SCIP_RESULT \<times> EdgeConflictsConsData" where
  "separate_entry use_waitedge_conflicts scip wait_edges_used entry state =
     (let et = fst entry;
          move_val = snd entry;
          t = et_t et;
          (edges, wait_val) = wait_edge use_waitedge_conflicts scip wait_edges_used et;
          lhs = move_val + wait_val
      in if SCIPisGT scip lhs 1
         then edge_conflicts_create_cut scip (snd state) t edges (SCIPprobdataGetVars scip)
                (fst state)
         else state)"

definition edge_conflicts_separate ::
  "bool \<Rightarrow> SCIP \<Rightarrow> SCIP_SOL \<Rightarrow> SCIP_RESULT \<times> EdgeConflictsConsData \<Rightarrow>
   SCIP_RESULT \<times> EdgeConflictsConsData" where
  "edge_conflicts_separate use_waitedge_conflicts scip sol state =
     (let makespan = find_makespan scip sol;
          (move_edges_used, wait_edges_used) =
             separate_sum use_waitedge_conflicts scip sol makespan
      in fold (separate_entry use_waitedge_conflicts scip wait_edges_used)
           (hash_iteration scip move_edges_used) state)"

text \<open>
  The callbacks that start the separator: the two separation callbacks start from
  \<open>SCIP_DIDNOTFIND\<close>, the enforcement of LP solutions from \<open>SCIP_FEASIBLE\<close>.
\<close>

definition consSepalpEdgeConflicts ::
  "bool \<Rightarrow> SCIP \<Rightarrow> SCIP_SOL \<Rightarrow> EdgeConflictsConsData \<Rightarrow> SCIP_RESULT \<times> EdgeConflictsConsData" where
  "consSepalpEdgeConflicts use_waitedge_conflicts scip sol consdata =
     edge_conflicts_separate use_waitedge_conflicts scip sol (SCIP_DIDNOTFIND, consdata)"

definition consEnfolpEdgeConflicts ::
  "bool \<Rightarrow> SCIP \<Rightarrow> SCIP_SOL \<Rightarrow> EdgeConflictsConsData \<Rightarrow> SCIP_RESULT \<times> EdgeConflictsConsData" where
  "consEnfolpEdgeConflicts use_waitedge_conflicts scip sol consdata =
     edge_conflicts_separate use_waitedge_conflicts scip sol (SCIP_FEASIBLE, consdata)"

subsection \<open>The wait usage and the makespan, in the words of the specification\<close>

text \<open>
  A variable occupies the wait edge of the node \<open>n\<close> at time \<open>t\<close> when its path waits at
  \<open>n\<close> at \<open>t < path_length - 1\<close>, or when its path has ended at \<open>n\<close> and
  \<open>path_length - 1 \<le> t < makespan - 1\<close>. The wait usage of \<open>(n, t)\<close> is the sum of the values
  of the variables with positive value that occupy it. The longest positive path is the
  greatest length of a path of a variable with positive value (0 when there is none).
\<close>

definition wait_occupies :: "SCIP \<Rightarrow> Time \<Rightarrow> SCIP_VAR \<Rightarrow> Node \<Rightarrow> Time \<Rightarrow> bool" where
  "wait_occupies scip makespan var n t =
     (let path = SCIPvardataGetPath scip var
      in (t < length path - 1 \<and> path ! t = Edge n WAIT) \<or>
         (length path - 1 \<le> t \<and> t < makespan - 1 \<and> edge_n (path ! (length path - 1)) = n))"

definition wait_usage :: "SCIP \<Rightarrow> SCIP_SOL \<Rightarrow> Time \<Rightarrow> Node \<Rightarrow> Time \<Rightarrow> SCIP_Real" where
  "wait_usage scip sol makespan n t =
     sum_list (map sol (filter (\<lambda>var. SCIPisPositive scip (sol var) \<and> wait_occupies scip makespan var n t)
                               (SCIPprobdataGetVars scip)))"

definition longest_positive_path :: "SCIP \<Rightarrow> SCIP_SOL \<Rightarrow> nat" where
  "longest_positive_path scip sol =
     Max (set (0 # map (\<lambda>var. length (SCIPvardataGetPath scip var))
                       (filter (\<lambda>var. SCIPisPositive scip (sol var)) (SCIPprobdataGetVars scip))))"

subsection \<open>Violated edge-times and the cuts of a call, in the words of the specification\<close>

text \<open>
  An edge-time \<open>(e, t)\<close> is used when some variable with positive value traverses \<open>e\<close> at
  \<open>t\<close>: these are the keys of the move usage. The selected wait usage is the larger of the
  wait usages of the nodes of \<open>e\<close> and of its opposite edge (0 without wait edges), and
  \<open>(e, t)\<close> is violated when its move usage plus the selected wait usage is greater than 1
  for the comparison of the solver. The new cuts of a call are the conflicts appended to
  the store; the cuts for \<open>(e, t)\<close> are those whose first edge is \<open>e\<close> and whose time is \<open>t\<close>.
\<close>

definition edge_time_used :: "SCIP \<Rightarrow> SCIP_SOL \<Rightarrow> Edge \<Rightarrow> Time \<Rightarrow> bool" where
  "edge_time_used scip sol e t =
     (\<exists>var \<in> set (SCIPprobdataGetVars scip). SCIPisPositive scip (sol var) \<and> traverses scip var e t)"

definition selected_wait_usage :: "bool \<Rightarrow> SCIP \<Rightarrow> SCIP_SOL \<Rightarrow> Edge \<Rightarrow> Time \<Rightarrow> SCIP_Real" where
  "selected_wait_usage use_waitedge_conflicts scip sol e t =
     (if use_waitedge_conflicts
      then max (wait_usage scip sol (find_makespan scip sol) (edge_n e) t)
               (wait_usage scip sol (find_makespan scip sol) (edge_n (get_opposite_edge scip e)) t)
      else 0)"

definition edge_time_violated :: "bool \<Rightarrow> SCIP \<Rightarrow> SCIP_SOL \<Rightarrow> Edge \<Rightarrow> Time \<Rightarrow> bool" where
  "edge_time_violated use_waitedge_conflicts scip sol e t =
     SCIPisGT scip (move_usage scip sol e t + selected_wait_usage use_waitedge_conflicts scip sol e t) 1"

definition new_cuts :: "EdgeConflictsConsData \<Rightarrow> EdgeConflictsConsData \<Rightarrow> EdgeConflict list" where
  "new_cuts consdata consdata' = drop (length (conflicts consdata)) (conflicts consdata')"



text \<open>The paths of all variables are well formed: none is empty.\<close>

definition paths_nonempty :: "SCIP \<Rightarrow> bool" where
  "paths_nonempty scip =
     (\<forall>var \<in> set (SCIPprobdataGetVars scip). SCIPvardataGetPath scip var \<noteq> [])"

section \<open>Extension of the stored cuts by a new variable\<close>

text \<open>The test of \<open>edge_conflicts_add_var\<close> (lines 857 to 862), in its two builds.\<close>

fun add_var_covers :: "Edge list \<Rightarrow> EdgeArray \<Rightarrow> Time \<Rightarrow> bool" where
  "add_var_covers path (Array3 e0 e1 e2) t =
     ((t < length path - 1 \<and> (path ! t = e0 \<or> path ! t = e1 \<or> path ! t = e2)) \<or>
      (t \<ge> length path - 1 \<and> edge_n (path ! (length path - 1)) = edge_n e2))"
| "add_var_covers path (Array2 e0 e1) t =
     (t < length path - 1 \<and> (path ! t = e0 \<or> path ! t = e1))"

text \<open>
  \<open>edge_conflicts_add_var\<close>: every stored conflict whose test the path passes gets the
  variable with coefficient 1 in its row. (The rounding lock of the variable is state of
  the solver and is not modelled.)
\<close>

definition edge_conflicts_add_var ::
  "EdgeConflictsConsData \<Rightarrow> SCIP_VAR \<Rightarrow> Edge list \<Rightarrow> EdgeConflictsConsData" where
  "edge_conflicts_add_var consdata var path =
     consdata\<lparr>conflicts :=
       map (\<lambda>c. if add_var_covers path (ec_edges c) (ec_t c)
                then c\<lparr>ec_row := SCIPaddVarToRow (ec_row c) var 1\<rparr>
                else c)
           (conflicts consdata)\<rparr>"

section \<open>Transformation of the constraint\<close>

text \<open>
  \<open>consTransEdgeConflicts\<close>: the target data is copy-constructed from the source data, then
  \<open>release_assert\<close> aborts the run with its message unless the source holds no conflict;
  otherwise the transformed constraint is created with the target data.
\<close>

datatype error = ReleaseAssert string

definition consTransEdgeConflicts :: "EdgeConflictsConsData \<Rightarrow> error + EdgeConflictsConsData" where
  "consTransEdgeConflicts sourcedata =
     (let targetdata = sourcedata in
      if \<not> (conflicts sourcedata = [])
      then Inl (ReleaseAssert ''Edge conflicts exist in original problem before transformation'')
      else Inr targetdata)"

section \<open>An environment for the examples\<close>

text \<open>
  Modelled from the spec: the map and the tolerance comparisons are not part of the
  sources. The examples use a grid of a given width whose nodes are numbered row by row,
  in which "two directed edges that are opposite of one another map to the same
  undirected-edge key" (the key is the edge towards the north or the east), and
  comparisons with the absolute tolerance \<open>10\<^sup>-\<^sup>9\<close>.
\<close>

definition grid_destination :: "int \<Rightarrow> Edge \<Rightarrow> Node" where
  "grid_destination width e =
     (case edge_d e of
        NORTH \<Rightarrow> edge_n e - width
      | SOUTH \<Rightarrow> edge_n e + width
      | EAST \<Rightarrow> edge_n e + 1
      | WEST \<Rightarrow> edge_n e - 1
      | WAIT \<Rightarrow> edge_n e)"

definition grid_opposite_edge :: "int \<Rightarrow> Edge \<Rightarrow> Edge" where
  "grid_opposite_edge width e =
     (case edge_d e of
        NORTH \<Rightarrow> Edge (grid_destination width e) SOUTH
      | SOUTH \<Rightarrow> Edge (grid_destination width e) NORTH
      | EAST \<Rightarrow> Edge (grid_destination width e) WEST
      | WEST \<Rightarrow> Edge (grid_destination width e) EAST
      | WAIT \<Rightarrow> e)"

definition grid_undirected_edge :: "int \<Rightarrow> Edge \<Rightarrow> Edge" where
  "grid_undirected_edge width e =
     (if edge_d e = SOUTH \<or> edge_d e = WEST then grid_opposite_edge width e else e)"

definition eps_isPositive :: "SCIP_Real \<Rightarrow> bool" where
  "eps_isPositive x = (x > 1 / 10 ^ 9)"

definition eps_isGT :: "SCIP_Real \<Rightarrow> SCIP_Real \<Rightarrow> bool" where
  "eps_isGT x y = (x - y > 1 / 10 ^ 9)"

text \<open>
  The problem of the examples: the given variables and paths on a grid of width 10, the
  given answers of \<open>SCIPaddRow\<close>, and hash tables that iterate in the order of insertion.
\<close>

definition example_scip :: "SCIP_VAR list \<Rightarrow> (SCIP_VAR \<Rightarrow> Edge list) \<Rightarrow> (SCIP_ROW \<Rightarrow> bool) \<Rightarrow> SCIP" where
  "example_scip vars paths addrow =
     \<lparr>SCIPisPositive = eps_isPositive, SCIPisGT = eps_isGT,
      SCIPprobdataGetVars = vars, SCIPvardataGetPath = paths,
      get_undirected_edge = grid_undirected_edge 10,
      get_opposite_edge = grid_opposite_edge 10,
      SCIPaddRow = addrow,
      hash_iteration = (\<lambda>table. table)\<rparr>"


text \<open>
  A long path and an agent that stays at the node 7: the makespan is 3.
\<close>

definition tail_paths :: "SCIP_VAR \<Rightarrow> Edge list" where
  "tail_paths var =
     (if var = 0 then [Edge 0 EAST, Edge 1 EAST, Edge 2 WAIT] else [Edge 7 WAIT])"



text \<open>
  Two pairs of crossing agents, on the edge between the nodes 0 and 1 and on the edge
  between the nodes 5 and 6, both at time 0.
\<close>

definition two_conflict_paths :: "SCIP_VAR \<Rightarrow> Edge list" where
  "two_conflict_paths var =
     (if var = 0 then [Edge 0 EAST, Edge 1 WAIT]
      else if var = 1 then [Edge 1 WEST, Edge 0 WAIT]
      else if var = 2 then [Edge 5 EAST, Edge 6 WAIT]
      else [Edge 6 WEST, Edge 5 WAIT])"


lemmas example_defs = example_scip_def eps_isPositive_def eps_isGT_def grid_undirected_edge_def
  grid_opposite_edge_def grid_destination_def

lemmas separate_defs = edge_conflicts_separate_def find_makespan_def SCIPvardataGetPathLength_def
  separate_sum_def separate_sum_path_def separate_entry_def wait_edge_def hash_find_def
  edge_conflicts_create_cut_def SCIPcreateEmptyRowCons_def SCIPaddVarToRow_def

section \<open>Properties of the hash tables\<close>

text \<open>
  A table that receives a list of additions one after the other holds, for every key, the
  sum of the values added under that key, and holds exactly the keys that were added.
\<close>

lemma map_of_hash_add:
  "map_of (hash_add k v m) k' =
     (if k' = k then Some ((case map_of m k of None \<Rightarrow> 0 | Some x \<Rightarrow> x) + v) else map_of m k')"
  by (induction m) auto

lemma keys_hash_add:
  "map fst (hash_add k v m) = (if k \<in> fst ` set m then map fst m else map fst m @ [k])"
  by (induction m) (force simp: image_iff)+


lemma set_keys_hash_add: "fst ` set (hash_add k v m) = insert k (fst ` set m)"
proof -
  have "set (map fst (hash_add k v m)) = insert k (set (map fst m))"
    unfolding keys_hash_add by auto
  then show ?thesis by simp
qed

definition hash_add_all :: "(EdgeTime \<times> SCIP_Real) list \<Rightarrow> HashTable \<Rightarrow> HashTable" where
  "hash_add_all evs m = fold (\<lambda>ev. hash_add (fst ev) (snd ev)) evs m"

definition lookup0 :: "HashTable \<Rightarrow> EdgeTime \<Rightarrow> SCIP_Real" where
  "lookup0 m k = (case map_of m k of None \<Rightarrow> 0 | Some x \<Rightarrow> x)"

lemma map_of_hash_add_all:
  "map_of (hash_add_all evs m) k =
     (if k \<in> fst ` set evs \<or> k \<in> fst ` set m
      then Some (lookup0 m k + sum_list (map snd (filter (\<lambda>ev. fst ev = k) evs)))
      else map_of m k)"
proof (induction evs arbitrary: m)
  case Nil
  show ?case by (auto simp: hash_add_all_def lookup0_def map_of_eq_None_iff split: option.splits)
next
  case (Cons ev evs)
  have step: "hash_add_all (ev # evs) m = hash_add_all evs (hash_add (fst ev) (snd ev) m)"
    by (simp add: hash_add_all_def)
  have keys: "fst ` set (hash_add (fst ev) (snd ev) m) = insert (fst ev) (fst ` set m)"
    by (rule set_keys_hash_add)
  show ?case
    unfolding step Cons.IH keys
    by (auto simp: lookup0_def map_of_hash_add map_of_eq_None_iff split: option.splits)
qed


lemma keys_hash_add_all:
  "fst ` set (hash_add_all evs m) = fst ` set evs \<union> fst ` set m"
  by (induction evs arbitrary: m) (auto simp: hash_add_all_def set_keys_hash_add)


lemma hash_add_all_append: "hash_add_all (xs @ ys) m = hash_add_all ys (hash_add_all xs m)"
  by (simp add: hash_add_all_def)

lemma hash_add_all_Nil: "hash_add_all [] m = m"
  by (simp add: hash_add_all_def)

lemma filter_eq_upt:
  "filter (\<lambda>x. x = t \<and> R x) [0..<n] = (if t < n \<and> R t then [t] else [])"
  by (induction n) auto

section \<open>Properties of the checker\<close>

text \<open>The additions that the loops of the checker make, in their order.\<close>

definition move_events_path :: "SCIP \<Rightarrow> Edge list \<Rightarrow> SCIP_Real \<Rightarrow> (EdgeTime \<times> SCIP_Real) list" where
  "move_events_path scip path val =
     map (\<lambda>t. (EdgeTime (get_undirected_edge scip (path ! t)) t, val))
         (filter (\<lambda>t. edge_d (path ! t) \<noteq> WAIT) [0..<length path - 1])"

definition move_events :: "SCIP \<Rightarrow> SCIP_SOL \<Rightarrow> (EdgeTime \<times> SCIP_Real) list" where
  "move_events scip sol =
     concat (map (\<lambda>var. if SCIPisPositive scip (sol var)
                         then move_events_path scip (SCIPvardataGetPath scip var) (sol var)
                         else [])
                 (SCIPprobdataGetVars scip))"

lemma check_sum_path_events:
  "check_sum_path scip path val m = hash_add_all (move_events_path scip path val) m"
proof -
  have "fold (\<lambda>t used. if edge_d (path ! t) \<noteq> WAIT
             then hash_add (EdgeTime (get_undirected_edge scip (path ! t)) t) val used
             else used) ts m =
        hash_add_all (map (\<lambda>t. (EdgeTime (get_undirected_edge scip (path ! t)) t, val))
         (filter (\<lambda>t. edge_d (path ! t) \<noteq> WAIT) ts)) m" for ts
    by (induction ts arbitrary: m) (simp_all add: hash_add_all_def)
  then show ?thesis
    by (simp add: check_sum_path_def move_events_path_def)
qed

lemma check_sum_events: "check_sum scip sol = hash_add_all (move_events scip sol) []"
proof -
  have "fold (\<lambda>var used.
             let path = SCIPvardataGetPath scip var;
                 var_val = sol var
             in if SCIPisPositive scip var_val
                then check_sum_path scip path var_val used
                else used) vs m =
        hash_add_all (concat (map (\<lambda>var. if SCIPisPositive scip (sol var)
                         then move_events_path scip (SCIPvardataGetPath scip var) (sol var)
                         else []) vs)) m" for vs m
    by (induction vs arbitrary: m)
       (simp_all add: hash_add_all_append hash_add_all_Nil check_sum_path_events Let_def)
  then show ?thesis
    by (simp add: check_sum_def move_events_def)
qed

lemma move_events_path_key:
  "filter (\<lambda>ev. fst ev = EdgeTime e t) (move_events_path scip path val) =
     (if t < length path - 1 \<and> edge_d (path ! t) \<noteq> WAIT \<and> get_undirected_edge scip (path ! t) = e
      then [(EdgeTime e t, val)] else [])"
proof -
  have "filter (\<lambda>ev. fst ev = EdgeTime e t) (move_events_path scip path val) =
        map (\<lambda>t. (EdgeTime (get_undirected_edge scip (path ! t)) t, val))
          (filter (\<lambda>x. x = t \<and> (edge_d (path ! x) \<noteq> WAIT \<and> get_undirected_edge scip (path ! x) = e))
             [0..<length path - 1])"
    unfolding move_events_path_def filter_map filter_filter comp_def
    by (rule arg_cong [where f = "map _"], rule filter_cong) auto
  then show ?thesis
    unfolding filter_eq_upt by auto
qed


lemma move_events_key_mem:
  "EdgeTime e t \<in> fst ` set (move_events scip sol) \<longleftrightarrow>
     (\<exists>var \<in> set (SCIPprobdataGetVars scip). SCIPisPositive scip (sol var) \<and> traverses scip var e t)"
proof -
  have "EdgeTime e t \<in> fst ` set evs \<longleftrightarrow> filter (\<lambda>ev. fst ev = EdgeTime e t) evs \<noteq> []" for evs :: "(EdgeTime \<times> SCIP_Real) list"
    by (force simp: filter_empty_conv image_iff)
  moreover have "filter (\<lambda>ev. fst ev = EdgeTime e t)
          (concat (map (\<lambda>var. if SCIPisPositive scip (sol var)
                         then move_events_path scip (SCIPvardataGetPath scip var) (sol var)
                         else []) vs)) \<noteq> [] \<longleftrightarrow>
        (\<exists>var \<in> set vs. SCIPisPositive scip (sol var) \<and> traverses scip var e t)" for vs
    by (induction vs) (auto simp add: move_events_path_key traverses_def Let_def)
  ultimately show ?thesis
    unfolding move_events_def by blast
qed









section \<open>Properties of the separator: the two usage tables and the makespan\<close>

text \<open>The additions that the loops of the separator make to the wait usage, in their order.\<close>

definition wait_events_path :: "Time \<Rightarrow> Edge list \<Rightarrow> SCIP_Real \<Rightarrow> (EdgeTime \<times> SCIP_Real) list" where
  "wait_events_path makespan path val =
     map (\<lambda>t. (EdgeTime (path ! t) t, val))
         (filter (\<lambda>t. edge_d (path ! t) = WAIT) [0..<length path - 1]) @
     map (\<lambda>t. (EdgeTime (Edge (edge_n (path ! (length path - 1))) WAIT) t, val))
         [length path - 1 ..< makespan - 1]"

definition wait_events :: "SCIP \<Rightarrow> SCIP_SOL \<Rightarrow> Time \<Rightarrow> (EdgeTime \<times> SCIP_Real) list" where
  "wait_events scip sol makespan =
     concat (map (\<lambda>var. if SCIPisPositive scip (sol var)
                         then wait_events_path makespan (SCIPvardataGetPath scip var) (sol var)
                         else [])
                 (SCIPprobdataGetVars scip))"

lemma separate_first_loop:
  "fold (\<lambda>t (move_edges_used, wait_edges_used).
            if edge_d (path ! t) \<noteq> WAIT
            then (hash_add (EdgeTime (get_undirected_edge scip (path ! t)) t) val move_edges_used,
                  wait_edges_used)
            else if uw
            then (move_edges_used, hash_add (EdgeTime (path ! t) t) val wait_edges_used)
            else (move_edges_used, wait_edges_used)) ts (m, w) =
   (hash_add_all (map (\<lambda>t. (EdgeTime (get_undirected_edge scip (path ! t)) t, val))
         (filter (\<lambda>t. edge_d (path ! t) \<noteq> WAIT) ts)) m,
    if uw then hash_add_all (map (\<lambda>t. (EdgeTime (path ! t) t, val))
         (filter (\<lambda>t. edge_d (path ! t) = WAIT) ts)) w else w)"
  by (induction ts arbitrary: m w) (simp_all add: hash_add_all_def)

lemma separate_second_loop:
  "fold (\<lambda>t (move_edges_used, wait_edges_used).
            (move_edges_used, hash_add (EdgeTime (Edge n WAIT) t) val wait_edges_used)) ts (m, w) =
   (m, hash_add_all (map (\<lambda>t. (EdgeTime (Edge n WAIT) t, val)) ts) w)"
  by (induction ts arbitrary: m w) (simp_all add: hash_add_all_def)

lemma separate_sum_path_events:
  "separate_sum_path uw scip makespan path val (m, w) =
     (hash_add_all (move_events_path scip path val) m,
      if uw then hash_add_all (wait_events_path makespan path val) w else w)"
  unfolding separate_sum_path_def separate_first_loop Let_def
  by (simp add: separate_second_loop move_events_path_def wait_events_path_def hash_add_all_append)

lemma separate_sum_fold_events:
  "fold (\<lambda>var used.
             let path = SCIPvardataGetPath scip var;
                 var_val = sol var
             in if SCIPisPositive scip var_val
                then separate_sum_path uw scip makespan path var_val used
                else used) vs (m, w) =
   (hash_add_all (concat (map (\<lambda>var. if SCIPisPositive scip (sol var)
                         then move_events_path scip (SCIPvardataGetPath scip var) (sol var)
                         else []) vs)) m,
    if uw then hash_add_all (concat (map (\<lambda>var. if SCIPisPositive scip (sol var)
                         then wait_events_path makespan (SCIPvardataGetPath scip var) (sol var)
                         else []) vs)) w else w)"
  by (induction vs arbitrary: m w)
     (simp_all add: separate_sum_path_events hash_add_all_append hash_add_all_Nil Let_def)

lemma separate_sum_events:
  "separate_sum uw scip sol makespan =
     (check_sum scip sol, if uw then hash_add_all (wait_events scip sol makespan) [] else [])"
  unfolding separate_sum_def separate_sum_fold_events check_sum_events
  by (simp add: move_events_def wait_events_def)


lemma filter_eq_upt2:
  "filter (\<lambda>x. x = t \<and> R x) [a..<b] = (if a \<le> t \<and> t < b \<and> R t then [t] else [])"
  by (induction b) auto

lemma wait_events_path_key:
  "filter (\<lambda>ev. fst ev = EdgeTime (Edge n WAIT) t) (wait_events_path makespan path val) =
     (if (t < length path - 1 \<and> path ! t = Edge n WAIT) \<or>
         (length path - 1 \<le> t \<and> t < makespan - 1 \<and> edge_n (path ! (length path - 1)) = n)
      then [(EdgeTime (Edge n WAIT) t, val)] else [])"
proof -
  have a: "filter (\<lambda>ev. fst ev = EdgeTime (Edge n WAIT) t)
          (map (\<lambda>t. (EdgeTime (path ! t) t, val))
             (filter (\<lambda>t. edge_d (path ! t) = WAIT) [0..<length path - 1])) =
        map (\<lambda>t. (EdgeTime (path ! t) t, val))
          (filter (\<lambda>x. x = t \<and> path ! x = Edge n WAIT) [0..<length path - 1])"
    unfolding filter_map filter_filter comp_def
    by (rule arg_cong [where f = "map _"], rule filter_cong) auto
  have b: "filter (\<lambda>ev. fst ev = EdgeTime (Edge n WAIT) t)
          (map (\<lambda>t. (EdgeTime (Edge (edge_n (path ! (length path - 1))) WAIT) t, val))
             [length path - 1 ..< makespan - 1]) =
        map (\<lambda>t. (EdgeTime (Edge (edge_n (path ! (length path - 1))) WAIT) t, val))
          (filter (\<lambda>x. x = t \<and> edge_n (path ! (length path - 1)) = n)
             [length path - 1 ..< makespan - 1])"
    unfolding filter_map comp_def
    by (rule arg_cong [where f = "map _"], rule filter_cong) auto
  show ?thesis
    unfolding wait_events_path_def filter_append a b filter_eq_upt2 by auto
qed

lemma wait_events_key_sum:
  "sum_list (map snd (filter (\<lambda>ev. fst ev = EdgeTime (Edge n WAIT) t) (wait_events scip sol makespan))) =
     wait_usage scip sol makespan n t"
proof -
  have "sum_list (map snd (filter (\<lambda>ev. fst ev = EdgeTime (Edge n WAIT) t)
          (concat (map (\<lambda>var. if SCIPisPositive scip (sol var)
                         then wait_events_path makespan (SCIPvardataGetPath scip var) (sol var)
                         else []) vs)))) =
        sum_list (map sol (filter (\<lambda>var. SCIPisPositive scip (sol var) \<and>
                                     wait_occupies scip makespan var n t) vs))"
    for vs
    by (induction vs) (simp_all add: wait_events_path_key wait_occupies_def Let_def)
  then show ?thesis
    by (simp add: wait_events_def wait_usage_def)
qed

lemma wait_events_key_mem:
  "EdgeTime (Edge n WAIT) t \<in> fst ` set (wait_events scip sol makespan) \<longleftrightarrow>
     (\<exists>var \<in> set (SCIPprobdataGetVars scip).
        SCIPisPositive scip (sol var) \<and> wait_occupies scip makespan var n t)"
proof -
  have "EdgeTime (Edge n WAIT) t \<in> fst ` set evs \<longleftrightarrow>
        filter (\<lambda>ev. fst ev = EdgeTime (Edge n WAIT) t) evs \<noteq> []"
    for evs :: "(EdgeTime \<times> SCIP_Real) list"
    by (force simp: filter_empty_conv image_iff)
  moreover have "filter (\<lambda>ev. fst ev = EdgeTime (Edge n WAIT) t)
          (concat (map (\<lambda>var. if SCIPisPositive scip (sol var)
                         then wait_events_path makespan (SCIPvardataGetPath scip var) (sol var)
                         else []) vs)) \<noteq> [] \<longleftrightarrow>
        (\<exists>var \<in> set vs. SCIPisPositive scip (sol var) \<and> wait_occupies scip makespan var n t)" for vs
    by (induction vs) (auto simp add: wait_events_path_key wait_occupies_def Let_def)
  ultimately show ?thesis
    unfolding wait_events_def by blast
qed


lemma separate_sum_wait_find:
  "hash_find (snd (separate_sum True scip sol makespan)) (EdgeTime (Edge n WAIT) t) =
     (if \<exists>var \<in> set (SCIPprobdataGetVars scip).
           SCIPisPositive scip (sol var) \<and> wait_occupies scip makespan var n t
      then Some (wait_usage scip sol makespan n t) else None)"
  unfolding hash_find_def separate_sum_events snd_conv if_True map_of_hash_add_all
    wait_events_key_sum wait_events_key_mem
  by (simp add: lookup0_def)


lemma find_makespan_fold:
  "fold (\<lambda>var makespan.
             if makespan < length (SCIPvardataGetPath scip var) \<and> SCIPisPositive scip (sol var)
             then length (SCIPvardataGetPath scip var)
             else makespan) vs m =
   fold max (map (\<lambda>var. length (SCIPvardataGetPath scip var))
                       (filter (\<lambda>var. SCIPisPositive scip (sol var)) vs)) m"
  by (induction vs arbitrary: m) (simp_all add: max_def)

lemma find_makespan_longest: "find_makespan scip sol = longest_positive_path scip sol"
proof -
  have "find_makespan scip sol =
        fold max (map (\<lambda>var. length (SCIPvardataGetPath scip var))
           (filter (\<lambda>var. SCIPisPositive scip (sol var)) (SCIPprobdataGetVars scip))) 0"
    unfolding find_makespan_def SCIPvardataGetPathLength_def Let_def
    by (rule find_makespan_fold)
  then show ?thesis
    unfolding longest_positive_path_def by (simp only: Max.set_eq_fold)
qed

lemma positive_length_le_makespan:
  assumes "var \<in> set (SCIPprobdataGetVars scip)" "SCIPisPositive scip (sol var)"
  shows "length (SCIPvardataGetPath scip var) \<le> find_makespan scip sol"
  unfolding find_makespan_longest longest_positive_path_def
  using assms by (intro Max_ge) auto

lemma wait_occupies_before_makespan:
  assumes "var \<in> set (SCIPprobdataGetVars scip)" "SCIPisPositive scip (sol var)"
    "wait_occupies scip (find_makespan scip sol) var n t"
  shows "t < find_makespan scip sol - 1"
  using assms(3) positive_length_le_makespan [of var scip sol, OF assms(1,2)]
  by (auto simp: wait_occupies_def Let_def)

section \<open>Properties of the separator: the cuts\<close>

text \<open>
  The row that \<open>edge_conflicts_create_cut\<close> builds, and the loop over the move usage as a
  filter (the violated entries) followed by a map (the cut of an entry).
\<close>

definition cut_row :: "SCIP \<Rightarrow> EdgeArray \<Rightarrow> Time \<Rightarrow> SCIP_VAR list \<Rightarrow> SCIP_ROW" where
  "cut_row scip edges t vars =
     fold (\<lambda>var row. if create_cut_covers (SCIPvardataGetPath scip var) edges t
                      then SCIPaddVarToRow row var 1 else row)
          vars (SCIPcreateEmptyRowCons MinusInfinity 1 False True False)"

lemma create_cut_eq:
  "edge_conflicts_create_cut scip consdata t edges vars result =
     (if SCIPaddRow scip (cut_row scip edges t vars) then SCIP_CUTOFF else SCIP_SEPARATED,
      consdata\<lparr>conflicts := conflicts consdata @
         [\<lparr>ec_row = cut_row scip edges t vars, ec_edges = edges, ec_t = t\<rparr>]\<rparr>)"
  by (simp add: edge_conflicts_create_cut_def cut_row_def Let_def)

definition entry_violated :: "bool \<Rightarrow> SCIP \<Rightarrow> HashTable \<Rightarrow> EdgeTime \<times> SCIP_Real \<Rightarrow> bool" where
  "entry_violated uw scip W entry =
     SCIPisGT scip (snd entry + snd (wait_edge uw scip W (fst entry))) 1"

definition entry_cut :: "bool \<Rightarrow> SCIP \<Rightarrow> HashTable \<Rightarrow> EdgeTime \<times> SCIP_Real \<Rightarrow> EdgeConflict" where
  "entry_cut uw scip W entry =
     \<lparr>ec_row = cut_row scip (fst (wait_edge uw scip W (fst entry))) (et_t (fst entry))
                 (SCIPprobdataGetVars scip),
      ec_edges = fst (wait_edge uw scip W (fst entry)),
      ec_t = et_t (fst entry)\<rparr>"

lemma separate_entry_eq:
  "separate_entry uw scip W entry (result, consdata) =
     (if entry_violated uw scip W entry
      then (if SCIPaddRow scip (ec_row (entry_cut uw scip W entry)) then SCIP_CUTOFF else SCIP_SEPARATED,
            consdata\<lparr>conflicts := conflicts consdata @ [entry_cut uw scip W entry]\<rparr>)
      else (result, consdata))"
  by (simp add: separate_entry_def entry_violated_def entry_cut_def create_cut_eq Let_def
      split: prod.splits)

lemma separate_fold_conflicts:
  "conflicts (snd (fold (separate_entry uw scip W) entries (result, consdata))) =
     conflicts consdata @ map (entry_cut uw scip W) (filter (entry_violated uw scip W) entries)"
  by (induction entries arbitrary: result consdata) (simp_all add: separate_entry_eq)

lemma separate_fold_result:
  "fst (fold (separate_entry uw scip W) entries (result, consdata)) =
     (case rev (filter (entry_violated uw scip W) entries) of
        [] \<Rightarrow> result
      | entry # _ \<Rightarrow> if SCIPaddRow scip (ec_row (entry_cut uw scip W entry))
                     then SCIP_CUTOFF else SCIP_SEPARATED)"
proof (induction entries arbitrary: result consdata)
  case Nil
  show ?case by simp
next
  case (Cons entry entries)
  show ?case
    by (cases "rev (filter (entry_violated uw scip W) entries)")
       (simp_all add: separate_entry_eq Cons.IH)
qed

lemma separate_eq:
  "edge_conflicts_separate uw scip sol state =
     fold (separate_entry uw scip (snd (separate_sum uw scip sol (find_makespan scip sol))))
       (hash_iteration scip (check_sum scip sol)) state"
  by (simp add: edge_conflicts_separate_def separate_sum_events Let_def)





lemma wait_edge_edges1: "edges1 (fst (wait_edge uw scip W et)) = get_opposite_edge scip (et_e et)"
  by (simp add: wait_edge_def Let_def)



lemma separate_new_cuts:
  "new_cuts consdata (snd (edge_conflicts_separate uw scip sol (result, consdata))) =
     map (entry_cut uw scip (snd (separate_sum uw scip sol (find_makespan scip sol))))
       (filter (entry_violated uw scip (snd (separate_sum uw scip sol (find_makespan scip sol))))
          (hash_iteration scip (check_sum scip sol)))"
  by (simp add: new_cuts_def separate_eq separate_fold_conflicts)




lemma separate_result_last:
  "fst (edge_conflicts_separate uw scip sol (result, consdata)) =
     (case rev (new_cuts consdata (snd (edge_conflicts_separate uw scip sol (result, consdata)))) of
        [] \<Rightarrow> result
      | c # _ \<Rightarrow> if SCIPaddRow scip (ec_row c) then SCIP_CUTOFF else SCIP_SEPARATED)"
  unfolding separate_new_cuts
  by (simp add: separate_eq separate_fold_result rev_map split: list.splits)

lemma violated_set_finite:
  "finite {(e, t). edge_time_used scip sol e t \<and> edge_time_violated uw scip sol e t}"
proof -
  have "{(e, t). edge_time_used scip sol e t \<and> edge_time_violated uw scip sol e t} \<subseteq>
        (\<lambda>k. (et_e k, et_t k)) ` fst ` set (check_sum scip sol)"
  proof
    fix x
    assume x: "x \<in> {(e, t). edge_time_used scip sol e t \<and> edge_time_violated uw scip sol e t}"
    obtain e t where et: "x = (e, t)" by (cases x)
    with x have "edge_time_used scip sol e t" by simp
    then have "EdgeTime e t \<in> fst ` set (move_events scip sol)"
      using move_events_key_mem [of e t scip sol] by (simp add: edge_time_used_def)
    then have "EdgeTime e t \<in> fst ` set (check_sum scip sol)"
      unfolding check_sum_events keys_hash_add_all by simp
    then show "x \<in> (\<lambda>k. (et_e k, et_t k)) ` fst ` set (check_sum scip sol)"
      unfolding et by force
  qed
  then show ?thesis by (rule finite_subset) simp
qed










section \<open>Properties of the rows\<close>

text \<open>
  Coefficients after \<open>SCIPaddVarToRow\<close>, the row of a cut over distinct variables, and the
  activity of a row under an assignment that gives 1 to a single variable.
\<close>

lemma map_of_inc_coef:
  "map_of (inc_coef var val cols) v =
     (if v = var then Some ((case map_of cols var of None \<Rightarrow> 0 | Some c \<Rightarrow> c) + val)
      else map_of cols v)"
  by (induction cols) auto



lemma addvar_coef:
  "SCIProwGetCoef (SCIPaddVarToRow row var val) v =
     SCIProwGetCoef row v + (if v = var then val else 0)"
  by (simp add: SCIProwGetCoef_def SCIPaddVarToRow_def map_of_inc_coef split: option.splits)









lemma add_var_covers_eq: "add_var_covers = create_cut_covers"
proof (intro ext)
  fix path edges t
  show "add_var_covers path edges t = create_cut_covers path edges t"
    by (cases edges) simp_all
qed

section \<open>The queries to the tolerance comparisons\<close>












section \<open>Theorems\<close>







text \<open>
  C4. \<open>edge_conflicts_add_var\<close> for a new variable with a non-empty path keeps the number,
  the edges and the times of the stored cuts. A stored cut whose test (the test of
  \<open>edge_conflicts_create_cut\<close>) the path passes gets the variable added to its row with
  coefficient 1: the coefficient of the variable grows by 1 and no other coefficient
  changes. A stored cut whose test the path does not pass is left as it is. The tests of
  \<open>edge_conflicts_add_var\<close> and of \<open>edge_conflicts_create_cut\<close> are the same function of the
  path, the edges and the time.
\<close>

theorem add_var_extends_covered_cuts:
  assumes "path \<noteq> []"
    and "i < length (conflicts consdata)"
  shows "length (conflicts (edge_conflicts_add_var consdata var path)) = length (conflicts consdata) \<and>
         ec_edges (conflicts (edge_conflicts_add_var consdata var path) ! i) =
           ec_edges (conflicts consdata ! i) \<and>
         ec_t (conflicts (edge_conflicts_add_var consdata var path) ! i) =
           ec_t (conflicts consdata ! i) \<and>
         (create_cut_covers path (ec_edges (conflicts consdata ! i)) (ec_t (conflicts consdata ! i)) \<longrightarrow>
            ec_row (conflicts (edge_conflicts_add_var consdata var path) ! i) =
              SCIPaddVarToRow (ec_row (conflicts consdata ! i)) var 1 \<and>
            (\<forall>v. SCIProwGetCoef (ec_row (conflicts (edge_conflicts_add_var consdata var path) ! i)) v =
               SCIProwGetCoef (ec_row (conflicts consdata ! i)) v + (if v = var then 1 else 0))) \<and>
         (\<not> create_cut_covers path (ec_edges (conflicts consdata ! i)) (ec_t (conflicts consdata ! i)) \<longrightarrow>
            conflicts (edge_conflicts_add_var consdata var path) ! i = conflicts consdata ! i) \<and>
         add_var_covers = create_cut_covers"
  using assms(2)
  by (simp add: edge_conflicts_add_var_def add_var_covers_eq addvar_coef)

theorem add_var_extends_covered_cuts_witness:
  "[Edge 1 WEST, Edge 0 WAIT] \<noteq> [] \<and>
   create_cut_covers [Edge 1 WEST, Edge 0 WAIT] (Array2 (Edge 0 EAST) (Edge 1 WEST)) 0 \<and>
   \<not> create_cut_covers [Edge 1 WEST, Edge 0 WAIT] (Array2 (Edge 5 EAST) (Edge 6 WEST)) 0 \<and>
   SCIProwGetCoef (ec_row (conflicts (edge_conflicts_add_var
      \<lparr>conflicts =
         [\<lparr>ec_row = SCIPcreateEmptyRowCons MinusInfinity 1 False True False,
           ec_edges = Array2 (Edge 0 EAST) (Edge 1 WEST), ec_t = 0\<rparr>,
          \<lparr>ec_row = SCIPcreateEmptyRowCons MinusInfinity 1 False True False,
           ec_edges = Array2 (Edge 5 EAST) (Edge 6 WEST), ec_t = 0\<rparr>]\<rparr>
      4 [Edge 1 WEST, Edge 0 WAIT]) ! 0)) 4 = 1 \<and>
   conflicts (edge_conflicts_add_var
      \<lparr>conflicts =
         [\<lparr>ec_row = SCIPcreateEmptyRowCons MinusInfinity 1 False True False,
           ec_edges = Array2 (Edge 0 EAST) (Edge 1 WEST), ec_t = 0\<rparr>,
          \<lparr>ec_row = SCIPcreateEmptyRowCons MinusInfinity 1 False True False,
           ec_edges = Array2 (Edge 5 EAST) (Edge 6 WEST), ec_t = 0\<rparr>]\<rparr>
      4 [Edge 1 WEST, Edge 0 WAIT]) ! 1 =
     \<lparr>ec_row = SCIPcreateEmptyRowCons MinusInfinity 1 False True False,
      ec_edges = Array2 (Edge 5 EAST) (Edge 6 WEST), ec_t = 0\<rparr>"
proof -
  let ?row = "SCIPcreateEmptyRowCons MinusInfinity 1 False True False"
  let ?c0 = "\<lparr>ec_row = ?row, ec_edges = Array2 (Edge 0 EAST) (Edge 1 WEST), ec_t = 0\<rparr>"
  let ?c1 = "\<lparr>ec_row = ?row, ec_edges = Array2 (Edge 5 EAST) (Edge 6 WEST), ec_t = 0\<rparr>"
  let ?cd = "\<lparr>conflicts = [?c0, ?c1]\<rparr>"
  let ?path = "[Edge 1 WEST, Edge 0 WAIT]"
  have p: "?path \<noteq> []" by simp
  have i0: "0 < length (conflicts ?cd)" and i1: "1 < length (conflicts ?cd)" by simp_all
  have k0: "conflicts ?cd ! 0 = ?c0" and k1: "conflicts ?cd ! 1 = ?c1" by simp_all
  have c0: "create_cut_covers ?path (ec_edges ?c0) (ec_t ?c0)"
    and c1: "\<not> create_cut_covers ?path (ec_edges ?c1) (ec_t ?c1)"
    by simp_all
  have "SCIProwGetCoef (ec_row (conflicts (edge_conflicts_add_var ?cd 4 ?path) ! 0)) 4 =
        SCIProwGetCoef (ec_row ?c0) 4 + (if (4 :: nat) = 4 then 1 else 0)"
    using add_var_extends_covered_cuts [OF p i0, of 4] c0 unfolding k0 by blast
  then have a: "SCIProwGetCoef (ec_row (conflicts (edge_conflicts_add_var ?cd 4 ?path) ! 0)) 4 = 1"
    by (simp add: SCIProwGetCoef_def SCIPcreateEmptyRowCons_def)
  have b: "conflicts (edge_conflicts_add_var ?cd 4 ?path) ! 1 = ?c1"
    using add_var_extends_covered_cuts [OF p i1, of 4] c1 unfolding k1 by blast
  from p c0 c1 a b show ?thesis by simp
qed

text \<open>
  C5. What the separator does when a row makes the relaxation infeasible and a later row
  does not: four agents, two crossing on the edge between the nodes 0 and 1 and two on the
  edge between the nodes 5 and 6, each with value 0.6; the solver reports a row infeasible
  when it holds the variables 0 and 1, and the hash table iterates in the order of
  insertion. Two cuts are created; adding the row of the first is answered with
  "infeasible" and adding the row of the second is not; the result of
  the call is \<open>SCIP_SEPARATED\<close>, as the second call of \<open>edge_conflicts_create_cut\<close> overwrites
  the \<open>SCIP_CUTOFF\<close> of the first.
\<close>

theorem separate_cutoff_overwritten:
  "map (SCIPaddRow (example_scip [0, 1, 2, 3] two_conflict_paths
         (\<lambda>row. SCIProwGetCoef row 0 = 1 \<and> SCIProwGetCoef row 1 = 1)))
     (map ec_row (conflicts (snd (edge_conflicts_separate False
      (example_scip [0, 1, 2, 3] two_conflict_paths
         (\<lambda>row. SCIProwGetCoef row 0 = 1 \<and> SCIProwGetCoef row 1 = 1))
      (\<lambda>var. 6 / 10) (SCIP_DIDNOTFIND, \<lparr>conflicts = []\<rparr>))))) = [True, False] \<and>
   fst (edge_conflicts_separate False
      (example_scip [0, 1, 2, 3] two_conflict_paths
         (\<lambda>row. SCIProwGetCoef row 0 = 1 \<and> SCIProwGetCoef row 1 = 1))
      (\<lambda>var. 6 / 10) (SCIP_DIDNOTFIND, \<lparr>conflicts = []\<rparr>)) = SCIP_SEPARATED"
  by (simp add: separate_defs example_defs two_conflict_paths_def SCIProwGetCoef_def eval_nat_numeral)

text \<open>
  C6 (as amended). With wait edges and paths that are not empty, for every variable with
  positive value and every time \<open>t\<close> with \<open>path_length - 1 \<le> t < makespan - 1\<close>, the wait usage has an
  entry for the final node of the path at \<open>t\<close>; its value is the wait usage of that node
  and time, a sum in which the value of the variable is a summand. The makespan is the
  length of the longest path of a variable with positive value. At the times
  \<open>t' \<ge> makespan - 1\<close> the wait usage has no entry for any node.
\<close>

theorem separate_wait_tail_recorded:
  assumes "var \<in> set (SCIPprobdataGetVars scip)"
    and "SCIPisPositive scip (sol var)"
    and "paths_nonempty scip"
    and "length (SCIPvardataGetPath scip var) - 1 \<le> t"
    and "t < find_makespan scip sol - 1"
  shows "hash_find (snd (separate_sum True scip sol (find_makespan scip sol)))
           (EdgeTime (Edge (edge_n (last (SCIPvardataGetPath scip var))) WAIT) t) =
         Some (wait_usage scip sol (find_makespan scip sol)
                 (edge_n (last (SCIPvardataGetPath scip var))) t) \<and>
         var \<in> set (filter (\<lambda>v. SCIPisPositive scip (sol v) \<and>
                   wait_occupies scip (find_makespan scip sol) v
                     (edge_n (last (SCIPvardataGetPath scip var))) t)
                 (SCIPprobdataGetVars scip)) \<and>
         find_makespan scip sol = longest_positive_path scip sol \<and>
         (find_makespan scip sol - 1 \<le> t' \<longrightarrow>
            hash_find (snd (separate_sum True scip sol (find_makespan scip sol)))
              (EdgeTime (Edge n WAIT) t') = None)"
proof -
  let ?path = "SCIPvardataGetPath scip var"
  let ?mk = "find_makespan scip sol"
  have "?path \<noteq> []"
    using assms(1,3) by (simp add: paths_nonempty_def)
  then have last: "last ?path = ?path ! (length ?path - 1)"
    by (rule last_conv_nth)
  have occ: "wait_occupies scip ?mk var (edge_n (last ?path)) t"
    using assms(4,5) by (simp add: wait_occupies_def last)
  have mem: "var \<in> set (filter (\<lambda>v. SCIPisPositive scip (sol v) \<and>
                   wait_occupies scip ?mk v (edge_n (last ?path)) t) (SCIPprobdataGetVars scip))"
    using assms(1,2) occ by simp
  have found: "hash_find (snd (separate_sum True scip sol ?mk))
           (EdgeTime (Edge (edge_n (last ?path)) WAIT) t) =
         Some (wait_usage scip sol ?mk (edge_n (last ?path)) t)"
    unfolding separate_sum_wait_find using assms(1,2) occ by auto
  have none: "?mk - 1 \<le> t' \<longrightarrow>
            hash_find (snd (separate_sum True scip sol ?mk)) (EdgeTime (Edge n WAIT) t') = None"
    unfolding separate_sum_wait_find using wait_occupies_before_makespan [of _ scip sol n t']
    by auto
  from found mem find_makespan_longest none show ?thesis by blast
qed

theorem separate_wait_tail_recorded_witness:
  "(1 :: nat) \<in> set (SCIPprobdataGetVars (example_scip [0, 1] tail_paths (\<lambda>row. False))) \<and>
   SCIPisPositive (example_scip [0, 1] tail_paths (\<lambda>row. False)) 1 \<and>
   SCIPvardataGetPath (example_scip [0, 1] tail_paths (\<lambda>row. False)) 1 = [Edge 7 WAIT] \<and>
   find_makespan (example_scip [0, 1] tail_paths (\<lambda>row. False)) (\<lambda>var. 1) = 3 \<and>
   hash_find (snd (separate_sum True (example_scip [0, 1] tail_paths (\<lambda>row. False)) (\<lambda>var. 1) 3))
     (EdgeTime (Edge 7 WAIT) 1) = Some 1 \<and>
   hash_find (snd (separate_sum True (example_scip [0, 1] tail_paths (\<lambda>row. False)) (\<lambda>var. 1) 3))
     (EdgeTime (Edge 7 WAIT) 5) = None"
proof -
  let ?scip = "example_scip [0, 1] tail_paths (\<lambda>row. False)"
  let ?sol = "\<lambda>var :: SCIP_VAR. 1 :: SCIP_Real"
  have v: "1 \<in> set (SCIPprobdataGetVars ?scip)"
    by (simp add: example_scip_def)
  have pos: "SCIPisPositive ?scip (?sol 1)"
    by (simp add: example_defs)
  have path: "SCIPvardataGetPath ?scip 1 = [Edge 7 WAIT]"
    by (simp add: example_scip_def tail_paths_def)
  have ne: "paths_nonempty ?scip"
    by (simp add: paths_nonempty_def example_scip_def tail_paths_def)
  have mk: "find_makespan ?scip ?sol = 3"
    by (simp add: find_makespan_def SCIPvardataGetPathLength_def example_defs tail_paths_def)
  have t: "length (SCIPvardataGetPath ?scip 1) - 1 \<le> 1" "1 < find_makespan ?scip ?sol - 1"
    unfolding mk path by simp_all
  have w: "wait_usage ?scip ?sol 3 7 1 = 1"
    by (simp add: wait_usage_def wait_occupies_def example_defs tail_paths_def)
  from separate_wait_tail_recorded [OF v pos ne t, of 5 7]
  show ?thesis
    using v pos w unfolding mk path by simp
qed

text \<open>
  C6 as stated fails for the time \<open>makespan - 1\<close>: with the makespan 3, the agent that stays
  at the node 7 has positive value and a path of length 1, the time 2 lies between
  \<open>path_length - 1\<close> and the makespan, and the wait usage holds entries for the node 7 at
  the times 0 and 1 only.
\<close>

theorem separate_wait_tail_not_up_to_makespan:
  "find_makespan (example_scip [0, 1] tail_paths (\<lambda>row. False)) (\<lambda>var. 1) = 3 \<and>
   SCIPisPositive (example_scip [0, 1] tail_paths (\<lambda>row. False)) 1 \<and>
   SCIPvardataGetPath (example_scip [0, 1] tail_paths (\<lambda>row. False)) 1 = [Edge 7 WAIT] \<and>
   length (SCIPvardataGetPath (example_scip [0, 1] tail_paths (\<lambda>row. False)) 1) - 1 \<le> 2 \<and>
   2 < find_makespan (example_scip [0, 1] tail_paths (\<lambda>row. False)) (\<lambda>var. 1) \<and>
   snd (separate_sum True (example_scip [0, 1] tail_paths (\<lambda>row. False)) (\<lambda>var. 1)
          (find_makespan (example_scip [0, 1] tail_paths (\<lambda>row. False)) (\<lambda>var. 1))) =
     [(EdgeTime (Edge 7 WAIT) 0, 1), (EdgeTime (Edge 7 WAIT) 1, 1)] \<and>
   hash_find (snd (separate_sum True (example_scip [0, 1] tail_paths (\<lambda>row. False)) (\<lambda>var. 1)
          (find_makespan (example_scip [0, 1] tail_paths (\<lambda>row. False)) (\<lambda>var. 1))))
     (EdgeTime (Edge 7 WAIT) 2) = None"
  by (simp add: separate_defs example_defs tail_paths_def eval_nat_numeral)



text \<open>
  C8. Transforming the constraint aborts through \<open>release_assert\<close> whenever the cut store
  of the source is not empty; when it is empty, the transformed constraint is created and
  its cut store is empty.
\<close>

theorem consTrans_empty_or_abort:
  "(conflicts sourcedata \<noteq> [] \<longrightarrow>
      (\<exists>msg. consTransEdgeConflicts sourcedata = Inl (ReleaseAssert msg))) \<and>
   (conflicts sourcedata = [] \<longrightarrow>
      (\<exists>targetdata. consTransEdgeConflicts sourcedata = Inr targetdata \<and>
         conflicts targetdata = []))"
  by (simp add: consTransEdgeConflicts_def)

theorem consTrans_empty_or_abort_witness:
  "(\<exists>msg. consTransEdgeConflicts
      \<lparr>conflicts = [\<lparr>ec_row = \<lparr>row_lhs = MinusInfinity, row_rhs = 1, row_local = False,
          row_modifiable = True, row_removable = False, row_cols = [(0, 1)]\<rparr>,
          ec_edges = Array2 (Edge 0 EAST) (Edge 1 WEST), ec_t = 0\<rparr>]\<rparr> = Inl (ReleaseAssert msg)) \<and>
   (\<exists>targetdata. consTransEdgeConflicts \<lparr>conflicts = []\<rparr> = Inr targetdata \<and>
      conflicts targetdata = [])"
  using consTrans_empty_or_abort
    [of "\<lparr>conflicts = [\<lparr>ec_row = \<lparr>row_lhs = MinusInfinity, row_rhs = 1, row_local = False,
          row_modifiable = True, row_removable = False, row_cols = [(0, 1)]\<rparr>,
          ec_edges = Array2 (Edge 0 EAST) (Edge 1 WEST), ec_t = 0\<rparr>]\<rparr>"]
    consTrans_empty_or_abort [of "\<lparr>conflicts = []\<rparr>"]
  by simp






end
